theory Spec2Isabelle
  imports Main "HOL-Library.Word"
begin

unbundle bit_operations_syntax

section \<open>The relay board controller of \<^verbatim>\<open>src/main.py\<close>\<close>

text \<open>
  The class \<^verbatim>\<open>RelayBoardController\<close> wraps the two-command serial protocol of an
  8-channel relay board. Python integers are unbounded, so the cached mask \<^verbatim>\<open>self.state\<close>
  is an \<open>int\<close> and the bit operations are those of \<open>int\<close>; a byte on the wire is an
  \<open>8 word\<close>. Every method takes the controller and the world of the serial link and
  returns its result together with the controller and the world it leaves behind, also
  when it raises: a Python exception does not undo the assignments made before it.
\<close>

subsection \<open>Exceptions\<close>

text \<open>
  The two exception classes the controller raises or lets through. A missing connection
  is a \<^verbatim>\<open>SerialException\<close> with the message of \<^verbatim>\<open>_ensure_connection\<close>; a channel out of
  range is a \<^verbatim>\<open>ValueError\<close>.
\<close>

datatype error = SerialException string | ValueError string

type_synonym byte = "8 word"

subsection \<open>The serial link\<close>

text \<open>
  The library behind \<^verbatim>\<open>serial.Serial\<close> is not part of the program; it is the
  environment. The world records every call made to it, in order, and holds what the
  environment will answer: for each kind of call a script of outcomes, consumed one
  per call (\<open>None\<close>: the call succeeds, \<open>Some msg\<close>: it raises a
  \<^verbatim>\<open>SerialException\<close>; for a read, the bytes that arrive within the timeout). A script
  that has run out answers with success, and a read with no byte.
\<close>

datatype io_event =
    EvOpen string
  | EvClose
  | EvResetInput
  | EvWrite "byte list"
  | EvRead nat

record world =
  open_script :: "string option list"
  reset_script :: "string option list"
  write_script :: "string option list"
  read_script :: "(string + byte list) list"
  trace :: "io_event list"

definition next_open :: "world \<Rightarrow> string option" where
  "next_open w = (case open_script w of [] \<Rightarrow> None | r # _ \<Rightarrow> r)"

definition next_reset :: "world \<Rightarrow> string option" where
  "next_reset w = (case reset_script w of [] \<Rightarrow> None | r # _ \<Rightarrow> r)"

definition next_write :: "world \<Rightarrow> string option" where
  "next_write w = (case write_script w of [] \<Rightarrow> None | r # _ \<Rightarrow> r)"

definition next_read :: "world \<Rightarrow> string + byte list" where
  "next_read w = (case read_script w of [] \<Rightarrow> Inr [] | r # _ \<Rightarrow> r)"

text \<open>The \<^verbatim>\<open>serial.Serial\<close> object: the settings it was opened with and \<^verbatim>\<open>is_open\<close>.\<close>

record serial_obj =
  ser_port :: string
  ser_baudrate :: nat
  ser_timeout :: nat
  ser_write_timeout :: nat
  is_open :: bool

text \<open>\<^verbatim>\<open>serial.Serial(port, baudrate=..., timeout=..., write_timeout=...)\<close> opens the port.\<close>

definition Serial :: "string \<Rightarrow> nat \<Rightarrow> nat \<Rightarrow> nat \<Rightarrow> world \<Rightarrow> (error + serial_obj) \<times> world" where
  "Serial p baud tmo wtmo w =
     (let w' = w\<lparr>open_script := tl (open_script w), trace := trace w @ [EvOpen p]\<rparr>
      in case next_open w of
           Some msg \<Rightarrow> (Inl (SerialException msg), w')
         | None \<Rightarrow>
             (Inr \<lparr>ser_port = p, ser_baudrate = baud, ser_timeout = tmo,
                   ser_write_timeout = wtmo, is_open = True\<rparr>, w'))"

text \<open>\<^verbatim>\<open>ser.close()\<close>: the port is closed.\<close>

definition ser_close :: "serial_obj \<Rightarrow> world \<Rightarrow> serial_obj \<times> world" where
  "ser_close ser w = (ser\<lparr>is_open := False\<rparr>, w\<lparr>trace := trace w @ [EvClose]\<rparr>)"

text \<open>\<^verbatim>\<open>ser.reset_input_buffer()\<close>, \<^verbatim>\<open>ser.write(data)\<close> and \<^verbatim>\<open>ser.read(size)\<close>.\<close>

definition reset_input_buffer :: "world \<Rightarrow> (error + unit) \<times> world" where
  "reset_input_buffer w =
     (let w' = w\<lparr>reset_script := tl (reset_script w), trace := trace w @ [EvResetInput]\<rparr>
      in case next_reset w of
           Some msg \<Rightarrow> (Inl (SerialException msg), w')
         | None \<Rightarrow> (Inr (), w'))"

definition ser_write :: "byte list \<Rightarrow> world \<Rightarrow> (error + nat) \<times> world" where
  "ser_write data w =
     (let w' = w\<lparr>write_script := tl (write_script w), trace := trace w @ [EvWrite data]\<rparr>
      in case next_write w of
           Some msg \<Rightarrow> (Inl (SerialException msg), w')
         | None \<Rightarrow> (Inr (length data), w'))"

definition ser_read :: "nat \<Rightarrow> world \<Rightarrow> (error + byte list) \<times> world" where
  "ser_read n w =
     (let w' = w\<lparr>read_script := tl (read_script w), trace := trace w @ [EvRead n]\<rparr>
      in case next_read w of
           Inl msg \<Rightarrow> (Inl (SerialException msg), w')
         | Inr bs \<Rightarrow> (Inr (take n bs), w'))"

text \<open>\<^verbatim>\<open>bytes([x])\<close>: a one-byte string, a \<^verbatim>\<open>ValueError\<close> when \<open>x\<close> is no byte.\<close>

definition py_bytes1 :: "int \<Rightarrow> error + byte list" where
  "py_bytes1 x =
     (if 0 \<le> x \<and> x < 256 then Inr [word_of_int x]
      else Inl (ValueError ''bytes must be in range(0, 256)''))"

subsection \<open>The controller\<close>

definition BAUDRATE :: nat where "BAUDRATE = 19200"
definition GET_STATES_CMD :: int where "GET_STATES_CMD = 91"
definition SET_STATES_CMD :: int where "SET_STATES_CMD = 92"

record controller =
  self_serial :: "serial_obj option"
  self_port :: "string option"
  self_state :: int

text \<open>\<^verbatim>\<open>__init__\<close>\<close>

definition init :: controller where
  "init = \<lparr>self_serial = None, self_port = None, self_state = 0\<rparr>"

text \<open>\<^verbatim>\<open>is_connected\<close>: \<^verbatim>\<open>self._serial is not None and self._serial.is_open\<close>\<close>

definition is_connected :: "controller \<Rightarrow> bool" where
  "is_connected self = (case self_serial self of None \<Rightarrow> False | Some ser \<Rightarrow> is_open ser)"

text \<open>\<^verbatim>\<open>close\<close>\<close>

definition close :: "controller \<Rightarrow> world \<Rightarrow> controller \<times> world" where
  "close self w =
     (let w1 = (case self_serial self of
                  None \<Rightarrow> w
                | Some ser \<Rightarrow> if is_open ser then snd (ser_close ser w) else w);
          self1 = self\<lparr>self_serial := None\<rparr>;
          self2 = self1\<lparr>self_port := None\<rparr>
      in (self2, w1))"

text \<open>\<^verbatim>\<open>_ensure_connection\<close>\<close>

definition ensure_connection :: "controller \<Rightarrow> error + serial_obj" where
  "ensure_connection self =
     (case self_serial self of
        None \<Rightarrow> Inl (SerialException ''Relay board is not connected.'')
      | Some ser \<Rightarrow>
          if \<not> is_open ser then Inl (SerialException ''Relay board is not connected.'')
          else Inr ser)"

text \<open>
  \<^verbatim>\<open>_send_command\<close>. It assigns nothing to the controller, so it returns the world only.
\<close>

definition send_command ::
    "controller \<Rightarrow> world \<Rightarrow> int \<Rightarrow> byte list \<Rightarrow> nat \<Rightarrow> (error + byte list) \<times> world" where
  "send_command self w command payload read_bytes =
     (case ensure_connection self of
        Inl e \<Rightarrow> (Inl e, w)
      | Inr ser \<Rightarrow>
          (case reset_input_buffer w of
             (Inl e, w1) \<Rightarrow> (Inl e, w1)
           | (Inr _, w1) \<Rightarrow>
               (case py_bytes1 command of
                  Inl e \<Rightarrow> (Inl e, w1)
                | Inr cmd \<Rightarrow>
                    (case ser_write (cmd @ payload) w1 of
                       (Inl e, w2) \<Rightarrow> (Inl e, w2)
                     | (Inr _, w2) \<Rightarrow>
                         if read_bytes \<noteq> 0 then ser_read read_bytes w2
                         else (Inr [], w2)))))"

text \<open>\<^verbatim>\<open>get_states\<close>: \<open>None\<close> is Python's \<^verbatim>\<open>None\<close>, the board sent nothing in time.\<close>

definition get_states :: "controller \<Rightarrow> world \<Rightarrow> (error + int option) \<times> controller \<times> world" where
  "get_states self w =
     (case send_command self w GET_STATES_CMD [] 1 of
        (Inl e, w1) \<Rightarrow> (Inl e, self, w1)
      | (Inr response, w1) \<Rightarrow>
          (case response of
             b # _ \<Rightarrow>
               (let self1 = self\<lparr>self_state := uint b\<rparr>
                in (Inr (Some (self_state self1)), self1, w1))
           | [] \<Rightarrow> (Inr None, self, w1)))"

text \<open>\<^verbatim>\<open>set_states\<close>\<close>

definition set_states :: "controller \<Rightarrow> world \<Rightarrow> int \<Rightarrow> (error + int) \<times> controller \<times> world" where
  "set_states self w st =
     (case py_bytes1 (st AND 255) of
        Inl e \<Rightarrow> (Inl e, self, w)
      | Inr payload \<Rightarrow>
          (case send_command self w SET_STATES_CMD payload 0 of
             (Inl e, w1) \<Rightarrow> (Inl e, self, w1)
           | (Inr _, w1) \<Rightarrow>
               (let self1 = self\<lparr>self_state := st AND 255\<rparr>
                in (Inr (self_state self1), self1, w1))))"

text \<open>\<^verbatim>\<open>set_channel\<close>\<close>

definition set_channel ::
    "controller \<Rightarrow> world \<Rightarrow> int \<Rightarrow> bool \<Rightarrow> (error + int) \<times> controller \<times> world" where
  "set_channel self w channel on =
     (if channel < 1 \<or> channel > 8
      then (Inl (ValueError ''Channel must be between 1 and 8.''), self, w)
      else
        (let new_state =
               (if on then self_state self OR push_bit (nat (channel - 1)) 1
                else self_state self AND NOT (push_bit (nat (channel - 1)) 1))
         in set_states self w new_state))"

text \<open>
  \<^verbatim>\<open>set_channels\<close>: the \<^verbatim>\<open>for\<close> loop over the channels works on the local variable
  \<^verbatim>\<open>state\<close> and raises at the first channel out of range.
\<close>

fun set_channels_loop :: "int \<Rightarrow> int list \<Rightarrow> bool \<Rightarrow> error + int" where
  "set_channels_loop st [] on = Inr st"
| "set_channels_loop st (channel # channels) on =
     (if channel < 1 \<or> channel > 8
      then Inl (ValueError ''Channel must be between 1 and 8.'')
      else set_channels_loop
             (if on then st OR push_bit (nat (channel - 1)) 1
              else st AND NOT (push_bit (nat (channel - 1)) 1))
             channels on)"

definition set_channels ::
    "controller \<Rightarrow> world \<Rightarrow> int list \<Rightarrow> bool \<Rightarrow> (error + int) \<times> controller \<times> world" where
  "set_channels self w channels on =
     (case set_channels_loop (self_state self) channels on of
        Inl e \<Rightarrow> (Inl e, self, w)
      | Inr st \<Rightarrow> set_states self w st)"

text \<open>\<^verbatim>\<open>connect\<close>\<close>

definition connect :: "controller \<Rightarrow> world \<Rightarrow> string \<Rightarrow> (error + int) \<times> controller \<times> world" where
  "connect self w p =
     (case close self w of
        (self0, w0) \<Rightarrow>
          (case Serial p BAUDRATE 1 1 w0 of
             (Inl exc, w1) \<Rightarrow>
               (let self1 = self0\<lparr>self_serial := None\<rparr>;
                    self2 = self1\<lparr>self_port := None\<rparr>
                in (Inl exc, self2, w1))
           | (Inr ser, w1) \<Rightarrow>
               (let self1 = self0\<lparr>self_serial := Some ser\<rparr>;
                    self2 = self1\<lparr>self_port := Some p\<rparr>
                in case get_states self2 w1 of
                     (Inl e, self3, w2) \<Rightarrow> (Inl e, self3, w2)
                   | (Inr states, self3, w2) \<Rightarrow>
                       (let self4 = self3\<lparr>self_state :=
                                      (case states of Some s \<Rightarrow> s | None \<Rightarrow> 0)\<rparr>
                        in (Inr (self_state self4), self4, w2)))))"

subsection \<open>Concrete inputs\<close>

text \<open>
  Two inputs for the examples: a link on which every call succeeds and the board sends
  nothing, and a controller that holds an open port with the cached mask \<open>s\<close>.
\<close>

definition quiet_world :: world where
  "quiet_world =
     \<lparr>open_script = [], reset_script = [], write_script = [], read_script = [], trace = []\<rparr>"

definition attached :: "int \<Rightarrow> controller" where
  "attached s =
     \<lparr>self_serial = Some \<lparr>ser_port = ''COM3'', ser_baudrate = 19200, ser_timeout = 1,
                            ser_write_timeout = 1, is_open = True\<rparr>,
      self_port = Some ''COM3'', self_state = s\<rparr>"

section \<open>Properties\<close>

subsection \<open>Masks stay bytes\<close>

lemma mask_byte_range: "0 \<le> (x::int) AND 255 \<and> x AND 255 < 256"
proof -
  have "x AND 255 \<le> 255" by (rule AND_upper2) simp
  then show ?thesis by simp
qed

lemma and_255_id: "0 \<le> (x::int) \<Longrightarrow> x < 256 \<Longrightarrow> x AND 255 = x"
proof -
  assume a: "0 \<le> x" "x < 256"
  have "take_bit 8 x = x" using a by (simp add: take_bit_int_eq_self)
  moreover have "take_bit 8 x = x AND 255" by (simp add: take_bit_eq_mask mask_eq_exp_minus_1)
  ultimately show ?thesis by simp
qed

lemma bit_range: "k < 8 \<Longrightarrow> 0 \<le> (push_bit k 1 :: int) \<and> (push_bit k 1 :: int) < 256"
proof -
  assume "k < 8"
  then have "(2::int) ^ k < 2 ^ 8" by (simp only: power_strict_increasing_iff) 
  then show ?thesis by (simp add: push_bit_eq_mult)
qed

lemma or_bit_range: "0 \<le> (s::int) \<Longrightarrow> s < 256 \<Longrightarrow> k < 8 \<Longrightarrow> 0 \<le> s OR push_bit k 1 \<and> s OR push_bit k 1 < 256"
proof -
  assume a: "0 \<le> s" "s < 256" "k < 8"
  have b: "0 \<le> (push_bit k 1 :: int)" "(push_bit k 1 :: int) < 2 ^ 8" using bit_range[OF a(3)] by simp_all
  have "s OR push_bit k 1 < 2 ^ 8" using a b by (intro OR_upper) simp_all
  then show ?thesis using a b by simp
qed

lemma and_not_range: "0 \<le> (s::int) \<Longrightarrow> s < 256 \<Longrightarrow> 0 \<le> s AND NOT y \<and> s AND NOT y < 256"
proof -
  assume a: "0 \<le> s" "s < 256"
  have "s AND NOT y \<le> s" using a by (intro AND_upper1) simp
  then show ?thesis using a by simp
qed

lemma foldl_channels_range:
  "\<forall>ch\<in>set channels. 1 \<le> ch \<and> ch \<le> 8 \<Longrightarrow> 0 \<le> (st::int) \<Longrightarrow> st < 256 \<Longrightarrow>
   0 \<le> foldl (\<lambda>s ch. if on then s OR push_bit (nat (ch - 1)) 1
                         else s AND NOT (push_bit (nat (ch - 1)) 1)) st channels
   \<and> foldl (\<lambda>s ch. if on then s OR push_bit (nat (ch - 1)) 1
                         else s AND NOT (push_bit (nat (ch - 1)) 1)) st channels < 256"
proof (induction channels arbitrary: st)
  case Nil
  then show ?case by simp
next
  case (Cons channel channels)
  let ?st = "if on then st OR push_bit (nat (channel - 1)) 1
             else st AND NOT (push_bit (nat (channel - 1)) 1)"
  from Cons.prems have k: "nat (channel - 1) < 8" by auto
  have "0 \<le> ?st \<and> ?st < 256"
    using or_bit_range [OF Cons.prems(2,3) k] and_not_range [OF Cons.prems(2,3)] by simp
  moreover from Cons.prems have "\<forall>ch\<in>set channels. 1 \<le> ch \<and> ch \<le> 8" by simp
  ultimately have "0 \<le> foldl (\<lambda>s ch. if on then s OR push_bit (nat (ch - 1)) 1
                         else s AND NOT (push_bit (nat (ch - 1)) 1)) ?st channels
   \<and> foldl (\<lambda>s ch. if on then s OR push_bit (nat (ch - 1)) 1
                         else s AND NOT (push_bit (nat (ch - 1)) 1)) ?st channels < 256"
    using Cons.IH by blast
  then show ?case by simp
qed

subsection \<open>The transport and the two protocol commands\<close>

lemma py_bytes1_mask: "py_bytes1 (x AND 255) = Inr [word_of_int (x AND 255)]"
  using mask_byte_range [of x] by (simp add: py_bytes1_def)

lemma ensure_connection_connected:
  "is_connected self \<Longrightarrow> \<exists>ser. ensure_connection self = Inr ser"
  by (auto simp: is_connected_def ensure_connection_def split: option.splits)

lemma ensure_connection_not_connected:
  "\<not> is_connected self \<Longrightarrow>
   ensure_connection self = Inl (SerialException ''Relay board is not connected.'')"
  by (auto simp: is_connected_def ensure_connection_def split: option.splits)

lemma send_command_not_connected:
  "\<not> is_connected self \<Longrightarrow>
   send_command self w command payload read_bytes =
     (Inl (SerialException ''Relay board is not connected.''), w)"
  by (simp add: send_command_def ensure_connection_not_connected)

lemma send_command_write_only:
  assumes "is_connected self" "next_reset w = None" "next_write w = None"
  shows "send_command self w SET_STATES_CMD payload 0 =
           (Inr [], w\<lparr>reset_script := tl (reset_script w),
                      write_script := tl (write_script w),
                      trace := trace w @ [EvResetInput, EvWrite (92 # payload)]\<rparr>)"
proof -
  obtain ser where "ensure_connection self = Inr ser"
    using ensure_connection_connected [OF assms(1)] by blast
  then show ?thesis
    using assms(2,3)
    by (simp add: send_command_def reset_input_buffer_def ser_write_def py_bytes1_def
        SET_STATES_CMD_def next_write_def next_reset_def Let_def)
qed

lemma send_command_read:
  assumes "is_connected self" "next_reset w = None" "next_write w = None" "next_read w = Inr bs"
  shows "send_command self w GET_STATES_CMD [] 1 =
           (Inr (take 1 bs), w\<lparr>reset_script := tl (reset_script w),
                      write_script := tl (write_script w),
                      read_script := tl (read_script w),
                      trace := trace w @ [EvResetInput, EvWrite [91], EvRead 1]\<rparr>)"
proof -
  obtain ser where "ensure_connection self = Inr ser"
    using ensure_connection_connected [OF assms(1)] by blast
  then show ?thesis
    using assms(2,3,4)
    by (simp add: send_command_def reset_input_buffer_def ser_write_def ser_read_def py_bytes1_def
        GET_STATES_CMD_def next_write_def next_reset_def next_read_def Let_def)
qed

lemma set_states_ok:
  assumes "is_connected self" "next_reset w = None" "next_write w = None"
  shows "set_states self w st =
           (Inr (st AND 255), self\<lparr>self_state := st AND 255\<rparr>,
            w\<lparr>reset_script := tl (reset_script w),
              write_script := tl (write_script w),
              trace := trace w @ [EvResetInput, EvWrite [92, word_of_int (st AND 255)]]\<rparr>)"
  by (simp add: set_states_def py_bytes1_mask send_command_write_only [OF assms])

lemma set_channels_loop_valid:
  "\<forall>ch\<in>set channels. 1 \<le> ch \<and> ch \<le> 8 \<Longrightarrow>
   set_channels_loop st channels on =
     Inr (foldl (\<lambda>s ch. if on then s OR push_bit (nat (ch - 1)) 1
                         else s AND NOT (push_bit (nat (ch - 1)) 1)) st channels)"
  by (induction channels arbitrary: st) auto

lemma set_channels_loop_invalid:
  "\<exists>ch\<in>set channels. ch < 1 \<or> ch > 8 \<Longrightarrow>
   set_channels_loop st channels on = Inl (ValueError ''Channel must be between 1 and 8.'')"
proof (induction channels arbitrary: st)
  case Nil
  then show ?case by simp
next
  case (Cons channel channels)
  show ?case
  proof (cases "channel < 1 \<or> channel > 8")
    case True
    then show ?thesis by simp
  next
    case False
    with Cons.prems have "\<exists>ch\<in>set channels. ch < 1 \<or> ch > 8" by auto
    from Cons.IH [OF this] False show ?thesis by simp
  qed
qed

lemma get_states_ok:
  assumes "is_connected self" "next_reset w = None" "next_write w = None" "next_read w = Inr bs"
  shows "get_states self w =
     (case bs of
        [] \<Rightarrow> (Inr None, self,
               w\<lparr>reset_script := tl (reset_script w), write_script := tl (write_script w),
                 read_script := tl (read_script w),
                 trace := trace w @ [EvResetInput, EvWrite [91], EvRead 1]\<rparr>)
      | b # _ \<Rightarrow> (Inr (Some (uint b)), self\<lparr>self_state := uint b\<rparr>,
               w\<lparr>reset_script := tl (reset_script w), write_script := tl (write_script w),
                 read_script := tl (read_script w),
                 trace := trace w @ [EvResetInput, EvWrite [91], EvRead 1]\<rparr>))"
  unfolding get_states_def send_command_read [OF assms]
  by (cases bs) simp_all


subsection \<open>Bulk switching\<close>

text \<open>
  C1. On a connected controller whose cached mask is a byte, with every listed channel in
  1..8 and a link that accepts the command, \<^verbatim>\<open>set_channels\<close> folds the bit-set (when
  \<open>on\<close>) or bit-clear operation over the channels from the cached mask, and makes one
  call of \<^verbatim>\<open>set_states\<close> with the result: the link sees one write, the set-states
  command byte followed by that mask, and the mask is the new cache and the value
  returned. From cache 0, the channels 2, 4, 6 switched on send the payload 0x2A.
\<close>

theorem set_channels_single_write:
  assumes "is_connected self"
    and "\<forall>ch\<in>set channels. 1 \<le> ch \<and> ch \<le> 8"
    and "0 \<le> self_state self" and "self_state self \<le> 255"
    and "next_reset w = None" and "next_write w = None"
  shows "let m = foldl (\<lambda>s ch. if on then s OR push_bit (nat (ch - 1)) 1
                               else s AND NOT (push_bit (nat (ch - 1)) 1))
                       (self_state self) channels
         in set_channels self w channels on = set_states self w m
          \<and> set_channels self w channels on =
              (Inr m, self\<lparr>self_state := m\<rparr>,
               w\<lparr>reset_script := tl (reset_script w),
                 write_script := tl (write_script w),
                 trace := trace w @ [EvResetInput, EvWrite [92, word_of_int m]]\<rparr>)"
proof -
  define m where "m = foldl (\<lambda>s ch. if on then s OR push_bit (nat (ch - 1)) 1
                               else s AND NOT (push_bit (nat (ch - 1)) 1))
                       (self_state self) channels"
  have loop: "set_channels_loop (self_state self) channels on = Inr m"
    unfolding m_def by (rule set_channels_loop_valid [OF assms(2)])
  have "0 \<le> m \<and> m < 256"
    unfolding m_def using foldl_channels_range [OF assms(2,3)] assms(4) by simp
  then have mask: "m AND 255 = m" by (simp add: and_255_id)
  have call: "set_channels self w channels on = set_states self w m"
    by (simp add: set_channels_def loop)
  moreover have "set_states self w m =
              (Inr m, self\<lparr>self_state := m\<rparr>,
               w\<lparr>reset_script := tl (reset_script w),
                 write_script := tl (write_script w),
                 trace := trace w @ [EvResetInput, EvWrite [92, word_of_int m]]\<rparr>)"
    using set_states_ok [OF assms(1,5,6), of m] by (simp only: mask)
  ultimately show ?thesis by (simp only: Let_def m_def [symmetric])
qed

theorem set_channels_single_write_witness:
  "set_channels (attached 0) quiet_world [2, 4, 6] True =
     (Inr 42, attached 42, quiet_world\<lparr>trace := [EvResetInput, EvWrite [92, 42]]\<rparr>)"
proof -
  have c: "is_connected (attached 0)" by (simp add: is_connected_def attached_def)
  have v: "\<forall>ch\<in>set [2, 4, 6 :: int]. 1 \<le> ch \<and> ch \<le> 8" by simp
  have s: "0 \<le> self_state (attached 0)" "self_state (attached 0) \<le> 255"
    by (simp_all add: attached_def)
  have q: "next_reset quiet_world = None" "next_write quiet_world = None"
    by (simp_all add: next_reset_def next_write_def quiet_world_def)
  show ?thesis
    using set_channels_single_write [OF c v s q, of True, unfolded Let_def, THEN conjunct2]
    by (simp add: attached_def quiet_world_def)
qed

subsection \<open>Facts about the concrete inputs\<close>

lemma attached_connected: "is_connected (attached s)"
  by (simp add: is_connected_def attached_def)

lemma quiet_world_next:
  "next_open quiet_world = None" "next_reset quiet_world = None"
  "next_write quiet_world = None" "next_read quiet_world = Inr []"
  by (simp_all add: next_open_def next_reset_def next_write_def next_read_def quiet_world_def)

subsection \<open>Switching one channel\<close>

text \<open>
  C2. On a connected controller whose cached mask \<open>s\<close> is a byte, with a channel \<open>c\<close> in
  1..8 and a link that accepts the command, \<^verbatim>\<open>set_channel\<close> switching on yields the
  mask \<open>s OR (1 << (c - 1))\<close>, and switching off the mask \<open>s AND NOT (1 << (c - 1))\<close>
  masked to 8 bits; the mask is written to the board in one set-states command,
  stored as the new cache and returned. The masking changes neither value.
\<close>

theorem set_channel_mask:
  assumes "is_connected self"
    and "1 \<le> channel" and "channel \<le> 8"
    and "0 \<le> self_state self" and "self_state self \<le> 255"
    and "next_reset w = None" and "next_write w = None"
  shows "let m = (if on then self_state self OR push_bit (nat (channel - 1)) 1
                  else (self_state self AND NOT (push_bit (nat (channel - 1)) 1)) AND 255)
         in set_channel self w channel on =
              (Inr m, self\<lparr>self_state := m\<rparr>,
               w\<lparr>reset_script := tl (reset_script w),
                 write_script := tl (write_script w),
                 trace := trace w @ [EvResetInput, EvWrite [92, word_of_int m]]\<rparr>)
          \<and> m AND 255 = m
          \<and> (self_state self AND NOT (push_bit (nat (channel - 1)) 1)) AND 255 =
              self_state self AND NOT (push_bit (nat (channel - 1)) 1)"
proof -
  let ?s = "self_state self"
  let ?b = "push_bit (nat (channel - 1)) 1 :: int"
  have s: "0 \<le> ?s" "?s < 256" using assms(4,5) by simp_all
  have k: "nat (channel - 1) < 8" using assms(2,3) by auto
  have on_id: "(?s OR ?b) AND 255 = ?s OR ?b"
    using or_bit_range [OF s k] by (simp add: and_255_id)
  have off_id: "(?s AND NOT ?b) AND 255 = ?s AND NOT ?b"
    using and_not_range [OF s, of ?b] by (simp add: and_255_id)
  have valid: "\<not> (channel < 1 \<or> channel > 8)" using assms(2,3) by simp
  show ?thesis
  proof (cases on)
    case True
    have "set_channel self w channel on = set_states self w (?s OR ?b)"
      using valid True by (simp add: set_channel_def)
    with set_states_ok [OF assms(1,6,7), of "?s OR ?b"] True on_id off_id
    show ?thesis by (simp add: Let_def)
  next
    case False
    have "set_channel self w channel on = set_states self w (?s AND NOT ?b)"
      using valid False by (simp add: set_channel_def)
    with set_states_ok [OF assms(1,6,7), of "?s AND NOT ?b"] False off_id
    show ?thesis by (simp add: Let_def)
  qed
qed

theorem set_channel_mask_witness:
  "set_channel (attached 255) quiet_world 8 False =
     (Inr 127, attached 127, quiet_world\<lparr>trace := [EvResetInput, EvWrite [92, 127]]\<rparr>)
   \<and> set_channel (attached 1) quiet_world 3 True =
     (Inr 5, attached 5, quiet_world\<lparr>trace := [EvResetInput, EvWrite [92, 5]]\<rparr>)"
proof -
  have a: "0 \<le> self_state (attached 255)" "self_state (attached 255) \<le> 255"
    and b: "0 \<le> self_state (attached 1)" "self_state (attached 1) \<le> 255"
    by (simp_all add: attached_def)
  have c8: "(1::int) \<le> 8" "(8::int) \<le> 8" and c3: "(1::int) \<le> 3" "(3::int) \<le> 8" by simp_all
  show ?thesis
    using set_channel_mask [OF attached_connected [of 255] c8 a quiet_world_next(2,3), of False,
            unfolded Let_def, THEN conjunct1]
          set_channel_mask [OF attached_connected [of 1] c3 b quiet_world_next(2,3), of True,
            unfolded Let_def, THEN conjunct1]
    by (simp add: attached_def quiet_world_def)
qed

subsection \<open>Channels out of range\<close>

text \<open>
  C3. A channel outside 1..8 makes \<^verbatim>\<open>set_channel\<close> raise the \<^verbatim>\<open>ValueError\<close> of an
  invalid channel, and a list with such an entry makes \<^verbatim>\<open>set_channels\<close> raise it; in
  both cases the controller, its cached mask included, is as before and nothing was
  sent: the world of the link, its trace included, is unchanged.
\<close>

theorem invalid_channel_rejected:
  "(channel < 1 \<or> channel > 8 \<longrightarrow>
      set_channel self w channel on =
        (Inl (ValueError ''Channel must be between 1 and 8.''), self, w))
   \<and> ((\<exists>ch\<in>set channels. ch < 1 \<or> ch > 8) \<longrightarrow>
      set_channels self w channels on =
        (Inl (ValueError ''Channel must be between 1 and 8.''), self, w))"
proof (intro conjI impI)
  assume "channel < 1 \<or> channel > 8"
  then show "set_channel self w channel on =
        (Inl (ValueError ''Channel must be between 1 and 8.''), self, w)"
    by (simp add: set_channel_def)
next
  assume "\<exists>ch\<in>set channels. ch < 1 \<or> ch > 8"
  from set_channels_loop_invalid [OF this]
  show "set_channels self w channels on =
        (Inl (ValueError ''Channel must be between 1 and 8.''), self, w)"
    by (simp add: set_channels_def)
qed

theorem invalid_channel_rejected_witness:
  "set_channel (attached 7) quiet_world 0 True =
     (Inl (ValueError ''Channel must be between 1 and 8.''), attached 7, quiet_world)
   \<and> set_channel (attached 7) quiet_world 9 True =
     (Inl (ValueError ''Channel must be between 1 and 8.''), attached 7, quiet_world)
   \<and> set_channels (attached 7) quiet_world [4, 9, 5] False =
     (Inl (ValueError ''Channel must be between 1 and 8.''), attached 7, quiet_world)"
  using invalid_channel_rejected
          [where channel = 0 and self = "attached 7" and w = quiet_world and on = True
             and channels = "[]"]
        invalid_channel_rejected
          [where channel = 9 and self = "attached 7" and w = quiet_world and on = True
             and channels = "[]"]
        invalid_channel_rejected
          [where channel = 1 and self = "attached 7" and w = quiet_world and on = False
             and channels = "[4, 9, 5]"]
  by simp

subsection \<open>Writing the whole mask\<close>

text \<open>
  C6. On a connected controller and a link that accepts the command, \<^verbatim>\<open>set_states\<close>
  with any integer sends the set-states command byte followed by one payload byte, the
  low 8 bits of the argument (the argument modulo 256), stores that masked value as
  the cache and returns it; no read is made of the link. Writing 0b10110000 leaves
  the cache at 0b10110000.
\<close>

theorem set_states_masks_and_caches:
  assumes "is_connected self" and "next_reset w = None" and "next_write w = None"
  shows "set_states self w st =
           (Inr (st AND 255), self\<lparr>self_state := st AND 255\<rparr>,
            w\<lparr>reset_script := tl (reset_script w),
              write_script := tl (write_script w),
              trace := trace w @ [EvResetInput, EvWrite [92, word_of_int (st AND 255)]]\<rparr>)
         \<and> st AND 255 = st mod 256"
proof -
  have "st AND 255 = take_bit 8 st"
    by (simp add: take_bit_eq_mask mask_eq_exp_minus_1)
  then have "st AND 255 = st mod 256" by (simp add: take_bit_eq_mod)
  with set_states_ok [OF assms, of st] show ?thesis by simp
qed

theorem set_states_masks_and_caches_witness:
  "set_states (attached 0) quiet_world 176 =
     (Inr 176, attached 176, quiet_world\<lparr>trace := [EvResetInput, EvWrite [92, 176]]\<rparr>)
   \<and> self_state (fst (snd (set_states (attached 0) quiet_world 176))) = 176
   \<and> set_states (attached 0) quiet_world 432 =
     (Inr 176, attached 176, quiet_world\<lparr>trace := [EvResetInput, EvWrite [92, 176]]\<rparr>)"
  using set_states_masks_and_caches [OF attached_connected [of 0] quiet_world_next(2,3),
          of 176, THEN conjunct1]
        set_states_masks_and_caches [OF attached_connected [of 0] quiet_world_next(2,3),
          of 432, THEN conjunct1]
  by (simp add: attached_def quiet_world_def)

subsection \<open>One channel is the list of one channel\<close>

lemma set_channel_singleton:
  "set_channel self w channel on = set_channels self w [channel] on"
  by (simp add: set_channel_def set_channels_def)

text \<open>
  C10. For every controller, link, channel and direction, \<^verbatim>\<open>set_channel\<close> with the
  channel and \<^verbatim>\<open>set_channels\<close> with the list of that one channel have the same
  result, leave the same controller and the same world of the link. On a connected
  controller with the channel in 1..8 and a link that accepts the command, that common
  outcome is spelled out: both return the mask with the bit of the channel set or
  cleared (masked to 8 bits), both leave that mask as the cache, and both add to the
  trace of the link the same single write, the set-states command byte followed by
  that mask.
\<close>

theorem set_channel_is_singleton_set_channels:
  "set_channel self w channel on = set_channels self w [channel] on
   \<and> (is_connected self \<and> 1 \<le> channel \<and> channel \<le> 8
        \<and> next_reset w = None \<and> next_write w = None \<longrightarrow>
      (let m = (if on then self_state self OR push_bit (nat (channel - 1)) 1
                else self_state self AND NOT (push_bit (nat (channel - 1)) 1)) AND 255;
           result = (Inr m, self\<lparr>self_state := m\<rparr>,
                     w\<lparr>reset_script := tl (reset_script w),
                       write_script := tl (write_script w),
                       trace := trace w @ [EvResetInput, EvWrite [92, word_of_int m]]\<rparr>)
       in set_channel self w channel on = result
        \<and> set_channels self w [channel] on = result))"
proof (intro conjI impI)
  show eq: "set_channel self w channel on = set_channels self w [channel] on"
    by (rule set_channel_singleton)
  assume h: "is_connected self \<and> 1 \<le> channel \<and> channel \<le> 8
        \<and> next_reset w = None \<and> next_write w = None"
  then have c: "is_connected self" and r: "next_reset w = None" and wr: "next_write w = None"
    and valid: "\<not> (channel < 1 \<or> channel > 8)" by auto
  let ?st = "if on then self_state self OR push_bit (nat (channel - 1)) 1
             else self_state self AND NOT (push_bit (nat (channel - 1)) 1)"
  have "set_channel self w channel on = set_states self w ?st"
    using valid by (simp add: set_channel_def)
  with set_states_ok [OF c r wr, of ?st] eq
  show "let m = (if on then self_state self OR push_bit (nat (channel - 1)) 1
                else self_state self AND NOT (push_bit (nat (channel - 1)) 1)) AND 255;
           result = (Inr m, self\<lparr>self_state := m\<rparr>,
                     w\<lparr>reset_script := tl (reset_script w),
                       write_script := tl (write_script w),
                       trace := trace w @ [EvResetInput, EvWrite [92, word_of_int m]]\<rparr>)
       in set_channel self w channel on = result
        \<and> set_channels self w [channel] on = result"
    by (simp only: Let_def)
qed

theorem set_channel_is_singleton_set_channels_witness:
  "set_channel (attached 1) quiet_world 3 True =
     (Inr 5, attached 5, quiet_world\<lparr>trace := [EvResetInput, EvWrite [92, 5]]\<rparr>)
   \<and> set_channels (attached 1) quiet_world [3] True =
     (Inr 5, attached 5, quiet_world\<lparr>trace := [EvResetInput, EvWrite [92, 5]]\<rparr>)
   \<and> set_channel (attached 255) quiet_world 8 False =
     (Inr 127, attached 127, quiet_world\<lparr>trace := [EvResetInput, EvWrite [92, 127]]\<rparr>)
   \<and> set_channels (attached 255) quiet_world [8] False =
     (Inr 127, attached 127, quiet_world\<lparr>trace := [EvResetInput, EvWrite [92, 127]]\<rparr>)"
proof -
  have h1: "is_connected (attached 1) \<and> (1::int) \<le> 3 \<and> (3::int) \<le> 8
        \<and> next_reset quiet_world = None \<and> next_write quiet_world = None"
    by (simp add: attached_connected quiet_world_next)
  have h2: "is_connected (attached 255) \<and> (1::int) \<le> 8 \<and> (8::int) \<le> 8
        \<and> next_reset quiet_world = None \<and> next_write quiet_world = None"
    by (simp add: attached_connected quiet_world_next)
  show ?thesis
    using set_channel_is_singleton_set_channels [where self = "attached 1" and w = quiet_world and channel = 3 and on = True,
             THEN conjunct2, rule_format, OF h1, unfolded Let_def]
          set_channel_is_singleton_set_channels [where self = "attached 255" and w = quiet_world and channel = 8 and on = False,
             THEN conjunct2, rule_format, OF h2, unfolded Let_def]
    by (simp add: attached_def quiet_world_def)
qed

subsection \<open>What each method can do to the controller\<close>

lemma close_eq:
  "close self w =
     (self\<lparr>self_serial := None, self_port := None\<rparr>,
      w\<lparr>trace := trace w @ (if is_connected self then [EvClose] else [])\<rparr>)"
  by (simp add: close_def is_connected_def ser_close_def split: option.splits)



lemma set_states_cases:
  "set_states self w st = (r, self', w') \<Longrightarrow>
     (self' = self \<and> (\<exists>e. r = Inl e))
   \<or> (r = Inr (st AND 255) \<and> self' = self\<lparr>self_state := st AND 255\<rparr>)"
  by (auto simp: set_states_def py_bytes1_mask split: prod.splits sum.splits)

lemma get_states_not_connected:
  "\<not> is_connected self \<Longrightarrow>
   get_states self w = (Inl (SerialException ''Relay board is not connected.''), self, w)"
  by (simp add: get_states_def send_command_not_connected)

lemma set_states_not_connected:
  "\<not> is_connected self \<Longrightarrow>
   set_states self w st = (Inl (SerialException ''Relay board is not connected.''), self, w)"
  by (simp add: set_states_def py_bytes1_mask send_command_not_connected)

lemma init_not_connected: "\<not> is_connected init"
  by (simp add: is_connected_def init_def)

lemma connect_open_ok:
  assumes "next_open w = None" and "next_reset w = None" and "next_write w = None"
    and "next_read w = Inr bs"
  shows "connect self w p =
     (let v = (case bs of [] \<Rightarrow> 0 | b # _ \<Rightarrow> uint b)
      in (Inr v,
          self\<lparr>self_serial := Some \<lparr>ser_port = p, ser_baudrate = 19200, ser_timeout = 1,
                                      ser_write_timeout = 1, is_open = True\<rparr>,
                self_port := Some p, self_state := v\<rparr>,
          w\<lparr>open_script := tl (open_script w), reset_script := tl (reset_script w),
            write_script := tl (write_script w), read_script := tl (read_script w),
            trace := trace w @ (if is_connected self then [EvClose] else [])
                       @ [EvOpen p, EvResetInput, EvWrite [91], EvRead 1]\<rparr>))"
proof -
  define cl where "cl = (if is_connected self then [EvClose] else [])"
  let ?ser = "\<lparr>ser_port = p, ser_baudrate = 19200, ser_timeout = 1,
               ser_write_timeout = 1, is_open = True\<rparr>"
  let ?w0 = "w\<lparr>trace := trace w @ cl\<rparr>"
  let ?w1 = "?w0\<lparr>open_script := tl (open_script ?w0), trace := trace ?w0 @ [EvOpen p]\<rparr>"
  let ?self2 = "self\<lparr>self_serial := None, self_port := None,
                     self_serial := Some ?ser, self_port := Some p\<rparr>"
  let ?w2 = "?w1\<lparr>reset_script := tl (reset_script ?w1), write_script := tl (write_script ?w1),
                 read_script := tl (read_script ?w1),
                 trace := trace ?w1 @ [EvResetInput, EvWrite [91], EvRead 1]\<rparr>"
  have cls: "close self w = (self\<lparr>self_serial := None, self_port := None\<rparr>, ?w0)"
    by (simp add: close_eq cl_def)
  have op: "Serial p BAUDRATE 1 1 ?w0 = (Inr ?ser, ?w1)"
    using assms(1) by (simp add: Serial_def next_open_def BAUDRATE_def Let_def)
  have c: "is_connected ?self2" by (simp add: is_connected_def)
  have n: "next_reset ?w1 = None" "next_write ?w1 = None" "next_read ?w1 = Inr bs"
    using assms(2,3,4) by (simp_all add: next_reset_def next_write_def next_read_def)
  have gs: "get_states ?self2 ?w1 =
     (case bs of [] \<Rightarrow> (Inr None, ?self2, ?w2)
      | b # _ \<Rightarrow> (Inr (Some (uint b)), ?self2\<lparr>self_state := uint b\<rparr>, ?w2))"
    by (rule get_states_ok [OF c n])
  have "connect self w p =
     (case get_states ?self2 ?w1 of
        (Inl e, self3, w2) \<Rightarrow> (Inl e, self3, w2)
      | (Inr states, self3, w2) \<Rightarrow>
          (let self4 = self3\<lparr>self_state := (case states of Some s \<Rightarrow> s | None \<Rightarrow> 0)\<rparr>
           in (Inr (self_state self4), self4, w2)))"
    by (simp only: connect_def cls op prod.case sum.case Let_def)
  then have "connect self w p =
     (case (case bs of [] \<Rightarrow> (Inr None, ?self2, ?w2)
            | b # _ \<Rightarrow> (Inr (Some (uint b)), ?self2\<lparr>self_state := uint b\<rparr>, ?w2)) of
        (Inl e, self3, w2) \<Rightarrow> (Inl e, self3, w2)
      | (Inr states, self3, w2) \<Rightarrow>
          (let self4 = self3\<lparr>self_state := (case states of Some s \<Rightarrow> s | None \<Rightarrow> 0)\<rparr>
           in (Inr (self_state self4), self4, w2)))"
    by (simp only: gs)
  then show ?thesis
    by (cases bs) (simp_all add: Let_def cl_def)
qed


lemma set_channel_state:
  "set_channel self w channel on = (r, self', w') \<Longrightarrow>
   self_state self' = self_state self
   \<or> (r = Inr (self_state self') \<and> 0 \<le> self_state self' \<and> self_state self' \<le> 255)"
  using mask_byte_range
  by (auto simp: set_channel_def Let_def split: if_splits dest!: set_states_cases)

lemma set_channels_state:
  "set_channels self w channels on = (r, self', w') \<Longrightarrow>
   self_state self' = self_state self
   \<or> (r = Inr (self_state self') \<and> 0 \<le> self_state self' \<and> self_state self' \<le> 255)"
  using mask_byte_range
  by (auto simp: set_channels_def split: sum.splits dest!: set_states_cases)




subsection \<open>Reading the mask\<close>

text \<open>
  C5. On a connected controller whose link accepts the get-states command,
  \<^verbatim>\<open>get_states\<close> returns \<^verbatim>\<open>None\<close>, the no-data outcome that is not an exception, when no
  byte arrives within the timeout, and leaves the controller, its cached mask included,
  as it was; when a byte arrives it stores that byte as the cache and returns it. In
  both cases the link sees the input buffer reset, the command byte written and one
  read of one byte.
\<close>

theorem get_states_reply:
  assumes "is_connected self"
    and "next_reset w = None" and "next_write w = None" and "next_read w = Inr bs"
  shows "get_states self w =
     (case bs of
        [] \<Rightarrow> (Inr None, self,
               w\<lparr>reset_script := tl (reset_script w), write_script := tl (write_script w),
                 read_script := tl (read_script w),
                 trace := trace w @ [EvResetInput, EvWrite [91], EvRead 1]\<rparr>)
      | b # _ \<Rightarrow> (Inr (Some (uint b)), self\<lparr>self_state := uint b\<rparr>,
               w\<lparr>reset_script := tl (reset_script w), write_script := tl (write_script w),
                 read_script := tl (read_script w),
                 trace := trace w @ [EvResetInput, EvWrite [91], EvRead 1]\<rparr>))"
  by (rule get_states_ok [OF assms])

theorem get_states_reply_witness:
  "get_states (attached 9) quiet_world =
     (Inr None, attached 9,
      quiet_world\<lparr>trace := [EvResetInput, EvWrite [91], EvRead 1]\<rparr>)
   \<and> get_states (attached 9) (quiet_world\<lparr>read_script := [Inr [42]]\<rparr>) =
     (Inr (Some 42), attached 42,
      quiet_world\<lparr>trace := [EvResetInput, EvWrite [91], EvRead 1]\<rparr>)"
proof -
  let ?w = "quiet_world\<lparr>read_script := [Inr [42]]\<rparr>"
  have n: "next_reset ?w = None" "next_write ?w = None" "next_read ?w = Inr [42]"
    by (simp_all add: next_reset_def next_write_def next_read_def quiet_world_def)
  show ?thesis
    using get_states_reply [OF attached_connected [of 9] quiet_world_next(2,3,4)]
          get_states_reply [OF attached_connected [of 9] n]
    by (simp add: attached_def quiet_world_def)
qed

subsection \<open>Connecting to a silent board\<close>

text \<open>
  C7. When the port opens, the link accepts the get-states command and no byte arrives
  for the initial read, \<^verbatim>\<open>connect\<close> does not raise: it returns 0, and the controller
  it leaves holds the open port, the port name and the cached mask 0, whatever the
  cache was before.
\<close>

theorem connect_no_data:
  assumes "next_open w = None" and "next_reset w = None" and "next_write w = None"
    and "next_read w = Inr []"
  shows "connect self w p =
     (Inr 0,
      self\<lparr>self_serial := Some \<lparr>ser_port = p, ser_baudrate = 19200, ser_timeout = 1,
                                  ser_write_timeout = 1, is_open = True\<rparr>,
            self_port := Some p, self_state := 0\<rparr>,
      w\<lparr>open_script := tl (open_script w), reset_script := tl (reset_script w),
        write_script := tl (write_script w), read_script := tl (read_script w),
        trace := trace w @ (if is_connected self then [EvClose] else [])
                   @ [EvOpen p, EvResetInput, EvWrite [91], EvRead 1]\<rparr>)"
  using connect_open_ok [OF assms, of self p] by simp

theorem connect_no_data_witness:
  "connect (attached 5) quiet_world ''COM4'' =
     (Inr 0,
      \<lparr>self_serial = Some \<lparr>ser_port = ''COM4'', ser_baudrate = 19200, ser_timeout = 1,
                            ser_write_timeout = 1, is_open = True\<rparr>,
       self_port = Some ''COM4'', self_state = 0\<rparr>,
      quiet_world\<lparr>trace := [EvClose, EvOpen ''COM4'', EvResetInput, EvWrite [91], EvRead 1]\<rparr>)"
  using connect_no_data [OF quiet_world_next, of "attached 5" "''COM4''"]
  by (simp add: attached_def quiet_world_def is_connected_def)

subsection \<open>A failure after the port has opened\<close>

text \<open>
  C8. The claim is that after any transport failure during \<^verbatim>\<open>connect\<close> the handle is
  discarded and the controller reports not connected. The \<^verbatim>\<open>try\<close> of \<^verbatim>\<open>connect\<close> covers
  the opening of the port only (\<open>connect_open_failure\<close> above: the handle is discarded
  then). Here the port opens and the write of the get-states command times out: the
  exception is passed on, and the controller keeps the open port and the port name, so
  it reports connected.
\<close>

theorem connect_keeps_handle_when_initial_read_fails:
  "connect init (quiet_world\<lparr>write_script := [Some ''Write timeout'']\<rparr>) ''COM3'' =
     (Inl (SerialException ''Write timeout''), attached 0,
      quiet_world\<lparr>trace := [EvOpen ''COM3'', EvResetInput, EvWrite [91]]\<rparr>)
   \<and> is_connected (attached 0) \<and> self_port (attached 0) = Some ''COM3''"
  by (simp add: connect_def close_def init_def quiet_world_def Serial_def next_open_def
      BAUDRATE_def get_states_def send_command_def ensure_connection_def
      reset_input_buffer_def next_reset_def py_bytes1_def GET_STATES_CMD_def ser_write_def
      next_write_def attached_def is_connected_def Let_def)

subsection \<open>Calls without a connection\<close>

text \<open>
  C4, as amended. On a controller that is not connected, \<^verbatim>\<open>get_states\<close> and
  \<^verbatim>\<open>set_states\<close> raise the \<^verbatim>\<open>SerialException\<close> of a missing connection, and so do
  \<^verbatim>\<open>set_channel\<close> and \<^verbatim>\<open>set_channels\<close> when every channel given is in 1..8; with a
  channel outside 1..8 these two raise the \<^verbatim>\<open>ValueError\<close> of an invalid channel
  instead, since the channels are checked before the connection. In every case the
  controller and the world of the link are returned unchanged: no call is made to the
  link, and cache and connection state stay as they were.
\<close>

theorem not_connected_no_effect:
  assumes "\<not> is_connected self"
  shows "get_states self w =
           (Inl (SerialException ''Relay board is not connected.''), self, w)
       \<and> set_states self w st =
           (Inl (SerialException ''Relay board is not connected.''), self, w)
       \<and> set_channel self w channel on =
           (Inl (if channel < 1 \<or> channel > 8
                 then ValueError ''Channel must be between 1 and 8.''
                 else SerialException ''Relay board is not connected.''), self, w)
       \<and> set_channels self w channels on =
           (Inl (if \<exists>ch\<in>set channels. ch < 1 \<or> ch > 8
                 then ValueError ''Channel must be between 1 and 8.''
                 else SerialException ''Relay board is not connected.''), self, w)"
proof (intro conjI)
  show "get_states self w =
           (Inl (SerialException ''Relay board is not connected.''), self, w)"
    by (rule get_states_not_connected [OF assms])
  show "set_states self w st =
           (Inl (SerialException ''Relay board is not connected.''), self, w)"
    by (rule set_states_not_connected [OF assms])
  show "set_channel self w channel on =
           (Inl (if channel < 1 \<or> channel > 8
                 then ValueError ''Channel must be between 1 and 8.''
                 else SerialException ''Relay board is not connected.''), self, w)"
    by (simp add: set_channel_def set_states_not_connected [OF assms])
  show "set_channels self w channels on =
           (Inl (if \<exists>ch\<in>set channels. ch < 1 \<or> ch > 8
                 then ValueError ''Channel must be between 1 and 8.''
                 else SerialException ''Relay board is not connected.''), self, w)"
  proof (cases "\<exists>ch\<in>set channels. ch < 1 \<or> ch > 8")
    case True
    from set_channels_loop_invalid [OF True] True show ?thesis
      by (simp add: set_channels_def)
  next
    case False
    then have "\<forall>ch\<in>set channels. 1 \<le> ch \<and> ch \<le> 8" by auto
    from set_channels_loop_valid [OF this] False show ?thesis
      by (simp add: set_channels_def set_states_not_connected [OF assms])
  qed
qed

theorem not_connected_no_effect_witness:
  "get_states init quiet_world =
     (Inl (SerialException ''Relay board is not connected.''), init, quiet_world)
   \<and> set_states init quiet_world 5 =
     (Inl (SerialException ''Relay board is not connected.''), init, quiet_world)
   \<and> set_channel init quiet_world 3 True =
     (Inl (SerialException ''Relay board is not connected.''), init, quiet_world)
   \<and> set_channels init quiet_world [2, 4, 6] True =
     (Inl (SerialException ''Relay board is not connected.''), init, quiet_world)"
  using not_connected_no_effect
          [OF init_not_connected, where w = quiet_world and st = 5 and channel = 3
             and on = True and channels = "[2, 4, 6]"]
  by simp

text \<open>
  The claim as stated, that every such call fails with the missing-connection error,
  is false for a channel out of range: on the fresh controller \<^verbatim>\<open>set_channel\<close> with
  channel 0 raises the \<^verbatim>\<open>ValueError\<close>.
\<close>

theorem not_connected_invalid_channel_counterexample:
  "\<not> is_connected init
   \<and> set_channel init quiet_world 0 True =
       (Inl (ValueError ''Channel must be between 1 and 8.''), init, quiet_world)
   \<and> fst (set_channel init quiet_world 0 True) \<noteq>
       Inl (SerialException ''Relay board is not connected.'')"
  by (simp add: init_not_connected set_channel_def)

subsection \<open>Who changes the cached mask\<close>






end
